theory Spec2Isabelle
  imports Complex_Main
begin

section \<open>Numbers\<close>

text \<open>
  A JavaScript \<^verbatim>\<open>number\<close> that is finite is modelled by the \<^typ>\<open>real\<close> it stands for.
  A value that is not a finite number (NaN, Infinity) is \<^term>\<open>None\<close> of
  \<^typ>\<open>real option\<close>. Division is the one operation of the modelled code that makes such a
  value out of finite ones, so it is written out: JavaScript does not raise on a zero
  divisor, it returns NaN or an Infinity.
\<close>

definition js_div :: "real \<Rightarrow> real \<Rightarrow> real option" where
  "js_div a b = (if b = 0 then None else Some (a / b))"

text \<open>
  Numbers are IEEE binary64 values and every operation rounds its exact result to the
  nearest such value, ties to the even significand: \<open>fl\<close>. A binary64 value has 53
  significant bits and a binary exponent from -1022 to 1023; below \<open>2 powi -1022\<close> the
  spacing stays \<open>2 powi -1074\<close>. The exponent of a real is found by counting up from 0 or
  down from -1. A result beyond the largest binary64 value is an Infinity in JavaScript
  and stays a large real under \<open>fl\<close>.

  The equality test of the watch service turns on this rounding, so it is modelled with
  \<open>fl\<close>, as is the percentage computed for it. The arithmetic of the scoring function is
  taken exactly, with \<^verbatim>\<open>0.4\<close>, \<^verbatim>\<open>0.6\<close>, ... the decimal fractions: what is proved of it
  are one instance and bounds.
\<close>

definition rnd :: "real \<Rightarrow> int" where
  "rnd x =
     (let f = \<lfloor>x\<rfloor>; d = x - of_int f in
      if d < 1 / 2 then f
      else if d > 1 / 2 then f + 1
      else if even f then f else f + 1)"

fun expoUp :: "nat \<Rightarrow> int \<Rightarrow> real \<Rightarrow> int" where
  "expoUp 0 e y = e"
| "expoUp (Suc n) e y = (if 2 powi (e + 1) \<le> y then expoUp n (e + 1) y else e)"

fun expoDown :: "nat \<Rightarrow> int \<Rightarrow> real \<Rightarrow> int" where
  "expoDown 0 e y = e"
| "expoDown (Suc n) e y = (if y < 2 powi e then expoDown n (e - 1) y else e)"

definition expo :: "real \<Rightarrow> int" where
  "expo x = (if \<bar>x\<bar> \<ge> 1 then expoUp 1023 0 \<bar>x\<bar> else expoDown 1021 (-1) \<bar>x\<bar>)"

definition fl :: "real \<Rightarrow> real" where
  "fl x = of_int (rnd (x / 2 powi (expo x - 52))) * 2 powi (expo x - 52)"

section \<open>Data model (types.ts)\<close>

text \<open>
  The two count blocks of \<^verbatim>\<open>AnalysisStats\<close> share their fields; the news block adds the
  risk tags. Level names, condition types and operators are JavaScript strings and stay
  strings here, so that the \<^verbatim>\<open>default\<close> branch of every \<^verbatim>\<open>switch\<close> is a branch of the model.
\<close>

record SentimentCounts =
  negativeCount :: real
  totalCount :: real

record NewsStats = SentimentCounts +
  riskTags :: "string list"

record OnChainStats =
  netflowPercent :: real
  activeAddressChange :: real

record AnalysisStats =
  news :: NewsStats
  social :: SentimentCounts
  onChain :: OnChainStats

record RiskScoreResult =
  score :: int
  level :: string

section \<open>Risk scoring (services/geminiService.ts, calculateRiskScore)\<close>

text \<open>
  The lookup \<^verbatim>\<open>tagWeights[tag] || 10\<close> reads a plain object. A tag of the table gives its
  weight (all are non-zero, so \<^verbatim>\<open>||\<close> keeps it), any other tag gives 10, except that a name
  every object inherits from \<^verbatim>\<open>Object.prototype\<close> gives that inherited function or object,
  for which the test \<^verbatim>\<open>w > maxTagWeight\<close> is false (its numeric value is NaN). Such a tag
  is \<^term>\<open>None\<close> here and leaves the maximum as it is.
\<close>

definition tagWeights :: "string \<rightharpoonup> real" where
  "tagWeights = map_of
     [(''hack'', 40), (''exploit'', 40), (''fraud'', 35), (''market_crash'', 30),
      (''exchange_issue'', 25), (''regulation'', 20), (''lawsuit'', 20), (''technical'', 15)]"

definition inheritedKeys :: "string list" where
  "inheritedKeys =
     [''constructor'', ''__defineGetter__'', ''__defineSetter__'', ''hasOwnProperty'',
      ''__lookupGetter__'', ''__lookupSetter__'', ''isPrototypeOf'', ''propertyIsEnumerable'',
      ''toString'', ''valueOf'', ''__proto__'', ''toLocaleString'']"

definition tagWeightOr10 :: "string \<Rightarrow> real option" where
  "tagWeightOr10 tag =
     (case tagWeights tag of
        Some w \<Rightarrow> Some w
      | None \<Rightarrow> if List.member inheritedKeys tag then None else Some 10)"

text \<open>The \<^verbatim>\<open>forEach\<close> loop over the tags, started at \<^verbatim>\<open>maxTagWeight = 0\<close>.\<close>

fun maxTagWeightFrom :: "real \<Rightarrow> string list \<Rightarrow> real" where
  "maxTagWeightFrom m [] = m"
| "maxTagWeightFrom m (tag # tags) =
     maxTagWeightFrom
       (case tagWeightOr10 tag of
          Some w \<Rightarrow> if w > m then w else m
        | None \<Rightarrow> m) tags"

definition maxTagWeight :: "string list \<Rightarrow> real" where
  "maxTagWeight tags = maxTagWeightFrom 0 tags"

definition riskTagStrength :: "string list \<Rightarrow> real" where
  "riskTagStrength tags =
     min 40 (maxTagWeight tags * (1 + (real (length tags) - 1) * 0.1))"

definition newsNegRatio :: "AnalysisStats \<Rightarrow> real option" where
  "newsNegRatio stats =
     (if totalCount (news stats) > 0
      then js_div (negativeCount (news stats)) (totalCount (news stats))
      else Some 0)"

definition negScore :: "AnalysisStats \<Rightarrow> real option" where
  "negScore stats = map_option (\<lambda>r. r * 60) (newsNegRatio stats)"

definition newsScore :: "AnalysisStats \<Rightarrow> real option" where
  "newsScore stats =
     map_option
       (\<lambda>n. n + (if length (riskTags (news stats)) > 0
                  then riskTagStrength (riskTags (news stats)) else 0))
       (negScore stats)"

definition socialNegRatio :: "AnalysisStats \<Rightarrow> real option" where
  "socialNegRatio stats =
     (if totalCount (social stats) > 0
      then js_div (negativeCount (social stats)) (totalCount (social stats))
      else Some 0)"

definition socialScore :: "AnalysisStats \<Rightarrow> real option" where
  "socialScore stats = map_option (\<lambda>r. r * 100) (socialNegRatio stats)"

definition nfScore :: "real \<Rightarrow> real" where
  "nfScore nf =
     (if nf \<ge> 30 then 100
      else if nf \<ge> 20 then 80
      else if nf \<ge> 10 then 60
      else if nf \<ge> 0 then 40
      else if nf \<ge> -10 then 30
      else if nf \<ge> -20 then 20
      else 10)"

definition aaScore :: "real \<Rightarrow> real" where
  "aaScore aa =
     (if aa \<le> -20 then 100
      else if aa \<le> -10 then 70
      else if aa \<le> 0 then 50
      else if aa \<le> 10 then 40
      else if aa \<le> 20 then 30
      else 20)"

definition onChainScore :: "AnalysisStats \<Rightarrow> real" where
  "onChainScore stats =
     nfScore (netflowPercent (onChain stats)) * 0.6
     + aaScore (activeAddressChange (onChain stats)) * 0.4"

definition totalScore :: "AnalysisStats \<Rightarrow> real option" where
  "totalScore stats =
     (case newsScore stats of
        None \<Rightarrow> None
      | Some n \<Rightarrow>
          (case socialScore stats of
             None \<Rightarrow> None
           | Some s \<Rightarrow> Some (n * 0.4 + s * 0.3 + onChainScore stats * 0.3)))"

definition classifyLevel :: "real \<Rightarrow> string" where
  "classifyLevel t =
     (if t \<ge> 70 then ''HIGH'' else if t \<ge> 40 then ''MEDIUM'' else ''LOW'')"

text \<open>
  \<^verbatim>\<open>Math.round\<close> rounds to the nearest integer, a half upwards: \<open>\<lfloor>t + 1/2\<rfloor>\<close>.
  The result is \<^term>\<open>None\<close> when the total is not a finite number.
\<close>

definition calculateRiskScore :: "AnalysisStats \<Rightarrow> RiskScoreResult option" where
  "calculateRiskScore stats =
     map_option (\<lambda>t. \<lparr>score = \<lfloor>t + 1 / 2\<rfloor>, level = classifyLevel t\<rparr>) (totalScore stats)"

section \<open>Analysis result and coin (types.ts)\<close>

text \<open>
  \<^verbatim>\<open>CoinData.analysis\<close> and \<^verbatim>\<open>AIAnalysisResult.stats\<close> are optional fields. The watch
  service also tests \<^verbatim>\<open>riskScore\<close>, \<^verbatim>\<open>riskLevel\<close> and \<^verbatim>\<open>change24h\<close> for
  \<^verbatim>\<open>undefined\<close>/\<^verbatim>\<open>null\<close>, so these are options too (\<^term>\<open>None\<close> is a missing value).
  The blocks inside \<^verbatim>\<open>AnalysisStats\<close> are required fields and every value the analysis
  builds has them; the tests \<^verbatim>\<open>!stats.onChain\<close> and \<^verbatim>\<open>!stats.news.riskTags\<close> of the watch
  service never fire on a value of that type and have no branch here.
  The display texts (\<^verbatim>\<open>actionGuide\<close>, \<^verbatim>\<open>analysisSummary\<close>, \<^verbatim>\<open>volume24h\<close>,
  \<^verbatim>\<open>marketCap\<close>, \<^verbatim>\<open>newsHeadline\<close>) carry no logic and are left out.
\<close>

record AIAnalysisResult =
  marketPhase :: string
  riskLevel :: "string option"
  riskScore :: "real option"
  stats :: "AnalysisStats option"

record CoinData =
  coin_id :: string
  symbol :: string
  coin_name :: string
  price :: real
  change24h :: "real option"
  analysis :: "AIAnalysisResult option"

section \<open>Analysis of one coin (services/geminiService.ts, analyzeCoinSignal)\<close>

text \<open>
  The four fetches are the inputs: each has answered (\<^term>\<open>Some\<close>) or failed
  (\<^verbatim>\<open>null\<close>, \<^term>\<open>None\<close>). The function returns \<^verbatim>\<open>null\<close> when it cannot analyse.
  The fetches and the summary request catch their own errors, so the outer
  \<^verbatim>\<open>catch\<close> (which also returns \<^verbatim>\<open>null\<close>) has no branch of its own here.
\<close>

record SentimentStat =
  sentiment :: "string option"
  count :: real
  percentage :: real

record SentimentStatsResponse =
  total :: real
  resp_stats :: "SentimentStat list"

record RiskScoreResponse =
  overall_risk_score :: "real option"
  risk_level :: "string option"

record PriceDataResponse =
  price_usd :: real
  volume_24h_usd :: real
  volume_percentage :: real
  total_market_volume_usd :: real

text \<open>\<^verbatim>\<open>stats.find(s => s.sentiment === 'negative')?.count || 0\<close>\<close>

definition negativeCountOf :: "SentimentStatsResponse \<Rightarrow> real" where
  "negativeCountOf resp =
     (case find (\<lambda>s. sentiment s = Some ''negative'') (resp_stats resp) of
        None \<Rightarrow> 0
      | Some s \<Rightarrow> count s)"

text \<open>
  With market data the net flow is the volume percentage (\<^verbatim>\<open>netflow || 0\<close>), and the
  active-address change is computed from the base value against itself:
  \<^verbatim>\<open>((10000 - 10000) / 10000) * 100\<close>.
\<close>

definition buildStats ::
  "SentimentStatsResponse option \<Rightarrow> SentimentStatsResponse option \<Rightarrow> PriceDataResponse option
   \<Rightarrow> AnalysisStats" where
  "buildStats newsStats socialStats coinMarketData =
     \<lparr>news =
        (case newsStats of
           Some ns \<Rightarrow> \<lparr>negativeCount = negativeCountOf ns, totalCount = total ns, riskTags = []\<rparr>
         | None \<Rightarrow> \<lparr>negativeCount = 0, totalCount = 0, riskTags = []\<rparr>),
      social =
        (case socialStats of
           Some ss \<Rightarrow> \<lparr>negativeCount = negativeCountOf ss, totalCount = total ss\<rparr>
         | None \<Rightarrow> \<lparr>negativeCount = 0, totalCount = 0\<rparr>),
      onChain =
        (case coinMarketData of
           Some md \<Rightarrow>
             \<lparr>netflowPercent = volume_percentage md,
              activeAddressChange = ((10000 - 10000) / 10000) * 100\<rparr>
         | None \<Rightarrow> \<lparr>netflowPercent = 0, activeAddressChange = 0\<rparr>)\<rparr>"

text \<open>The score and level taken from the backend answer; both stay \<^verbatim>\<open>null\<close> without it.\<close>

definition backendScore :: "RiskScoreResponse option \<Rightarrow> real option" where
  "backendScore riskData =
     (case riskData of None \<Rightarrow> None | Some rd \<Rightarrow> overall_risk_score rd)"

definition backendLevel :: "RiskScoreResponse option \<Rightarrow> string option" where
  "backendLevel riskData =
     (case riskData of
        None \<Rightarrow> None
      | Some rd \<Rightarrow>
          (case overall_risk_score rd of
             None \<Rightarrow> None
           | Some overallScore \<Rightarrow>
               (case risk_level rd of
                  Some l \<Rightarrow>
                    if l \<noteq> [] then Some l
                    else Some (if overallScore \<ge> 70 then ''HIGH''
                               else if overallScore \<ge> 40 then ''MEDIUM'' else ''LOW'')
                | None \<Rightarrow>
                    Some (if overallScore \<ge> 70 then ''HIGH''
                          else if overallScore \<ge> 40 then ''MEDIUM'' else ''LOW''))))"

definition marketPhaseOf :: "real option \<Rightarrow> string" where
  "marketPhaseOf ch =
     (case ch of
        None \<Rightarrow> ''STABLE''
      | Some c \<Rightarrow>
          if c > 5 then ''RISING''
          else if c < -5 then ''PLUMMETING''
          else if c > 2 then ''ACCUMULATION''
          else if c < -2 then ''CORRECTION''
          else ''STABLE'')"

definition analyzeCoinSignal ::
  "CoinData \<Rightarrow> SentimentStatsResponse option \<Rightarrow> SentimentStatsResponse option
   \<Rightarrow> RiskScoreResponse option \<Rightarrow> PriceDataResponse option \<Rightarrow> AIAnalysisResult option" where
  "analyzeCoinSignal coin newsStats socialStats riskData coinMarketData =
     (if newsStats = None \<and> socialStats = None then None
      else
        Some \<lparr>marketPhase = marketPhaseOf (change24h coin),
              riskLevel =
                (case backendLevel riskData of Some l \<Rightarrow> Some l | None \<Rightarrow> Some ''LOW''),
              riskScore =
                (case backendScore riskData of Some x \<Rightarrow> Some x | None \<Rightarrow> Some (-1)),
              stats = Some (buildStats newsStats socialStats coinMarketData)\<rparr>)"

section \<open>Watch rules (types.ts)\<close>

text \<open>
  A condition's \<^verbatim>\<open>value\<close> is a number or a string. Timestamps are ISO strings in the
  source, written by \<^verbatim>\<open>toISOString\<close> and read back by \<^verbatim>\<open>new Date\<close>; here they are the
  milliseconds these strings stand for.
\<close>

datatype CondValue = NumV real | StrV string

record WatchCondition =
  ctype :: string
  operator :: string
  cvalue :: CondValue
  riskTag :: "string option"

record WatchRule =
  rule_id :: string
  rule_name :: string
  enabled :: bool
  coinSymbols :: "string list option"
  conditions :: "WatchCondition list"
  createdAt :: int
  lastTriggered :: "int option"


section \<open>Evaluating conditions (watch service)\<close>

text \<open>
  The operands are binary64 values, on which \<open>fl\<close> is the identity; a real that is not
  one stands for the binary64 value nearest to it, as a decimal literal does. The order
  comparisons are exact on binary64 values; the equality test subtracts, which rounds, and
  compares with the binary64 value of the literal \<^verbatim>\<open>0.01\<close>.
\<close>

definition compareValues :: "real \<Rightarrow> string \<Rightarrow> real \<Rightarrow> bool" where
  "compareValues actual op target =
     (let a = fl actual; t = fl target in
      if op = ''>'' then a > t
      else if op = ''<'' then a < t
      else if op = ''>='' then a \<ge> t
      else if op = ''<='' then a \<le> t
      else if op = ''=='' then \<bar>fl (a - t)\<bar> < fl 0.01
      else False)"

definition getRiskLevelValue :: "string \<Rightarrow> real" where
  "getRiskLevelValue l =
     (if l = ''LOW'' then 1
      else if l = ''MEDIUM'' then 2
      else if l = ''HIGH'' then 3
      else if l = ''EXTREME'' then 4
      else 0)"

text \<open>
  \<^verbatim>\<open>condition.value as number\<close> is a cast of the type checker only. When the value is a
  string, the comparison operators convert it to a number; that conversion is the parameter
  \<open>toNumber\<close> (\<^term>\<open>None\<close> for NaN), and against NaN every comparison of
  \<^verbatim>\<open>compareValues\<close> is false.
\<close>

definition compareWithValue ::
  "(string \<Rightarrow> real option) \<Rightarrow> real \<Rightarrow> string \<Rightarrow> CondValue \<Rightarrow> bool" where
  "compareWithValue toNumber actual op v =
     (case v of
        NumV target \<Rightarrow> compareValues actual op target
      | StrV s \<Rightarrow>
          (case toNumber s of
             None \<Rightarrow> False
           | Some target \<Rightarrow> compareValues actual op target))"

text \<open>
  \<^verbatim>\<open>getRiskLevelValue(condition.value as string)\<close>: the \<^verbatim>\<open>switch\<close> compares strictly, so a
  number matches no case.
\<close>

definition targetLevelValue :: "CondValue \<Rightarrow> real" where
  "targetLevelValue v = (case v of StrV s \<Rightarrow> getRiskLevelValue s | NumV x \<Rightarrow> 0)"

definition checkCondition ::
  "(string \<Rightarrow> real option) \<Rightarrow> WatchCondition \<Rightarrow> CoinData \<Rightarrow> bool" where
  "checkCondition toNumber condition coin =
     (case analysis coin of
        None \<Rightarrow> False
      | Some a \<Rightarrow>
     (case stats a of
        None \<Rightarrow> False
      | Some st \<Rightarrow>
          if ctype condition = ''news_risk_tag'' then
            (case riskTag condition of
               None \<Rightarrow> False
             | Some tag \<Rightarrow>
                 if tag = [] then False
                 else if length (riskTags (news st)) = 0 then False
                 else List.member (riskTags (news st)) tag)
          else if ctype condition = ''social_negative'' then
            (if totalCount (social st) = 0 then False
             else compareWithValue toNumber
                    (fl (fl (negativeCount (social st) / totalCount (social st)) * 100))
                    (operator condition) (cvalue condition))
          else if ctype condition = ''onchain_netflow'' then
            compareWithValue toNumber (netflowPercent (onChain st))
              (operator condition) (cvalue condition)
          else if ctype condition = ''onchain_active_address'' then
            compareWithValue toNumber (activeAddressChange (onChain st))
              (operator condition) (cvalue condition)
          else if ctype condition = ''price_change'' then
            (case change24h coin of
               None \<Rightarrow> False
             | Some ch \<Rightarrow>
                 compareWithValue toNumber ch (operator condition) (cvalue condition))
          else if ctype condition = ''risk_score'' then
            (case riskScore a of
               None \<Rightarrow> False
             | Some sc \<Rightarrow>
                 if sc = -1 then False
                 else compareWithValue toNumber sc (operator condition) (cvalue condition))
          else if ctype condition = ''risk_level'' then
            (case riskLevel a of
               None \<Rightarrow> False
             | Some l \<Rightarrow>
                 if l = [] \<or> (l = ''LOW'' \<and> riskScore a = Some (-1)) then False
                 else compareValues (getRiskLevelValue l) (operator condition)
                        (targetLevelValue (cvalue condition)))
          else False))"

definition checkWatchConditions ::
  "(string \<Rightarrow> real option) \<Rightarrow> WatchRule \<Rightarrow> CoinData \<Rightarrow> bool" where
  "checkWatchConditions toNumber rule coin =
     (if \<not> enabled rule then False
      else if (case coinSymbols rule of
                 None \<Rightarrow> False
               | Some syms \<Rightarrow> length syms > 0 \<and> \<not> List.member syms (symbol coin))
      then False
      else if length (conditions rule) = 0 then False
      else list_all (\<lambda>condition. checkCondition toNumber condition coin) (conditions rule))"

section \<open>Rule store and notifications (watch service)\<close>













section \<open>Sample inputs\<close>

text \<open>Concrete snapshots, coins, conditions and rules at which the theorems are instantiated.\<close>

definition exampleSnapshot :: AnalysisStats where
  "exampleSnapshot =
     \<lparr>news = \<lparr>negativeCount = 40, totalCount = 100, riskTags = [''hack'']\<rparr>,
      social = \<lparr>negativeCount = 10, totalCount = 50\<rparr>,
      onChain = \<lparr>netflowPercent = 25, activeAddressChange = -25\<rparr>\<rparr>"

definition zeroSnapshot :: AnalysisStats where
  "zeroSnapshot =
     \<lparr>news = \<lparr>negativeCount = 0, totalCount = 0, riskTags = []\<rparr>,
      social = \<lparr>negativeCount = 0, totalCount = 0\<rparr>,
      onChain = \<lparr>netflowPercent = 0, activeAddressChange = 0\<rparr>\<rparr>"

text \<open>A string-to-number conversion under which no string is a number.\<close>

definition toNumberNaN :: "string \<Rightarrow> real option" where
  "toNumberNaN s = None"

definition sampleAssessment :: "string \<Rightarrow> real \<Rightarrow> AIAnalysisResult" where
  "sampleAssessment l x =
     \<lparr>marketPhase = ''STABLE'', riskLevel = Some l, riskScore = Some x,
      stats = Some zeroSnapshot\<rparr>"

definition sampleCoin :: "string \<Rightarrow> real \<Rightarrow> AIAnalysisResult option \<Rightarrow> CoinData" where
  "sampleCoin sy ch a =
     \<lparr>coin_id = sy, symbol = sy, coin_name = sy, price = 1,
      change24h = Some ch, analysis = a\<rparr>"

definition sampleCondition :: "string \<Rightarrow> string \<Rightarrow> CondValue \<Rightarrow> WatchCondition" where
  "sampleCondition ty op v = \<lparr>ctype = ty, operator = op, cvalue = v, riskTag = None\<rparr>"

definition sampleRule :: "string \<Rightarrow> WatchCondition list \<Rightarrow> int option \<Rightarrow> WatchRule" where
  "sampleRule i cs lt =
     \<lparr>rule_id = i, rule_name = i, enabled = True, coinSymbols = None,
      conditions = cs, createdAt = 0, lastTriggered = lt\<rparr>"





section \<open>Notions used in the proofs about a pass over the rules\<close>







section \<open>Properties of the risk score\<close>

lemma exampleSnapshot_newsScore: "newsScore exampleSnapshot = Some 64"
  by (simp add: exampleSnapshot_def newsScore_def negScore_def newsNegRatio_def js_div_def
      riskTagStrength_def maxTagWeight_def tagWeightOr10_def tagWeights_def)

lemma exampleSnapshot_socialScore: "socialScore exampleSnapshot = Some 20"
  by (simp add: exampleSnapshot_def socialScore_def socialNegRatio_def js_div_def)

lemma exampleSnapshot_onChainScore: "onChainScore exampleSnapshot = 88"
  by (simp add: exampleSnapshot_def onChainScore_def nfScore_def aaScore_def)

lemma exampleSnapshot_totalScore: "totalScore exampleSnapshot = Some 58"
  by (simp add: totalScore_def exampleSnapshot_newsScore exampleSnapshot_socialScore
      exampleSnapshot_onChainScore)

text \<open>
  Claim C1. For the snapshot with news 40 negative of 100 and the tag "hack", social 10
  negative of 50, net flow 25 and active-address change -25, the sub-scores are 64 (news),
  20 (social) and 88 (on-chain), and the scoring function returns score 58 with level MEDIUM.
\<close>

theorem C1_example_score:
  "newsScore exampleSnapshot = Some 64
   \<and> socialScore exampleSnapshot = Some 20
   \<and> onChainScore exampleSnapshot = 88
   \<and> calculateRiskScore exampleSnapshot = Some \<lparr>score = 58, level = ''MEDIUM''\<rparr>"
  by (simp add: calculateRiskScore_def classifyLevel_def exampleSnapshot_newsScore
      exampleSnapshot_socialScore exampleSnapshot_onChainScore exampleSnapshot_totalScore)

lemma tagWeightOr10_bounds: "tagWeightOr10 tag = Some w \<Longrightarrow> 0 \<le> w \<and> w \<le> 40"
  by (auto simp: tagWeightOr10_def tagWeights_def split: option.splits if_splits)

lemma maxTagWeightFrom_bounds:
  "0 \<le> m \<Longrightarrow> m \<le> 40 \<Longrightarrow> 0 \<le> maxTagWeightFrom m tags \<and> maxTagWeightFrom m tags \<le> 40"
proof (induction tags arbitrary: m)
  case Nil
  then show ?case by simp
next
  case (Cons tag tags)
  show ?case
  proof (cases "tagWeightOr10 tag")
    case None
    then show ?thesis using Cons by simp
  next
    case (Some w)
    then have "0 \<le> w \<and> w \<le> 40" by (rule tagWeightOr10_bounds)
    then show ?thesis using Cons Some by simp
  qed
qed

lemma riskTagStrength_bounds:
  assumes "length tags > 0"
  shows "0 \<le> riskTagStrength tags \<and> riskTagStrength tags \<le> 40"
proof -
  have m: "0 \<le> maxTagWeight tags"
    using maxTagWeightFrom_bounds [of 0 tags] by (simp add: maxTagWeight_def)
  have "real (length tags) - 1 \<ge> 0" using assms by (cases tags) simp_all
  then have "0 \<le> 1 + (real (length tags) - 1) * 0.1" by simp
  then have "0 \<le> maxTagWeight tags * (1 + (real (length tags) - 1) * 0.1)"
    using m by (rule_tac mult_nonneg_nonneg)
  then show ?thesis by (simp add: riskTagStrength_def)
qed

lemma newsScore_bounds:
  assumes "0 \<le> negativeCount (news s)" "negativeCount (news s) \<le> totalCount (news s)"
  shows "\<exists>n. newsScore s = Some n \<and> 0 \<le> n \<and> n \<le> 100"
proof (cases "totalCount (news s) > 0")
  case True
  define r where "r = negativeCount (news s) / totalCount (news s)"
  have r: "0 \<le> r \<and> r \<le> 1" unfolding r_def using assms True by simp
  have nr: "newsNegRatio s = Some r"
    using True by (simp add: newsNegRatio_def js_div_def r_def)
  show ?thesis
  proof (cases "length (riskTags (news s)) > 0")
    case True
    then show ?thesis
      using riskTagStrength_bounds [OF True] r nr
      by (simp add: newsScore_def negScore_def)
  next
    case False
    then show ?thesis using r nr by (simp add: newsScore_def negScore_def)
  qed
next
  case False
  then have nr: "newsNegRatio s = Some 0" by (simp add: newsNegRatio_def)
  show ?thesis
  proof (cases "length (riskTags (news s)) > 0")
    case True
    then show ?thesis
      using riskTagStrength_bounds [OF True] nr
      by (simp add: newsScore_def negScore_def)
  next
    case False
    then show ?thesis using nr by (simp add: newsScore_def negScore_def)
  qed
qed

lemma socialScore_bounds:
  assumes "0 \<le> negativeCount (social s)" "negativeCount (social s) \<le> totalCount (social s)"
  shows "\<exists>n. socialScore s = Some n \<and> 0 \<le> n \<and> n \<le> 100"
proof (cases "totalCount (social s) > 0")
  case True
  define r where "r = negativeCount (social s) / totalCount (social s)"
  have r: "0 \<le> r \<and> r \<le> 1" unfolding r_def using assms True by simp
  have "socialNegRatio s = Some r"
    using True by (simp add: socialNegRatio_def js_div_def r_def)
  then show ?thesis using r by (simp add: socialScore_def)
next
  case False
  then show ?thesis by (simp add: socialScore_def socialNegRatio_def)
qed

lemma nfScore_bounds: "10 \<le> nfScore x \<and> nfScore x \<le> 100"
  by (simp add: nfScore_def)

lemma aaScore_bounds: "20 \<le> aaScore x \<and> aaScore x \<le> 100"
  by (simp add: aaScore_def)

lemma onChainScore_bounds: "0 \<le> onChainScore s \<and> onChainScore s \<le> 100"
  using nfScore_bounds [of "netflowPercent (onChain s)"]
    aaScore_bounds [of "activeAddressChange (onChain s)"]
  by (simp add: onChainScore_def)

lemma totalScore_bounds:
  assumes "0 \<le> negativeCount (news s)" "negativeCount (news s) \<le> totalCount (news s)"
    and "0 \<le> negativeCount (social s)" "negativeCount (social s) \<le> totalCount (social s)"
  shows "\<exists>t. totalScore s = Some t \<and> 0 \<le> t \<and> t \<le> 100"
proof -
  obtain n where n: "newsScore s = Some n" "0 \<le> n" "n \<le> 100"
    using newsScore_bounds [OF assms(1,2)] by blast
  obtain c where c: "socialScore s = Some c" "0 \<le> c" "c \<le> 100"
    using socialScore_bounds [OF assms(3,4)] by blast
  show ?thesis using n c onChainScore_bounds [of s] by (simp add: totalScore_def)
qed

text \<open>
  Claim C2. For every snapshot whose counts are non-negative with the negative count at most
  the total count, in news and in social, the scoring function returns a score, and the
  score is an integer between 0 and 100.
\<close>

theorem C2_score_in_range:
  assumes "0 \<le> negativeCount (news s)" "negativeCount (news s) \<le> totalCount (news s)"
    and "0 \<le> negativeCount (social s)" "negativeCount (social s) \<le> totalCount (social s)"
  shows "\<exists>r. calculateRiskScore s = Some r \<and> 0 \<le> score r \<and> score r \<le> 100"
proof -
  obtain t where t: "totalScore s = Some t" "0 \<le> t" "t \<le> 100"
    using totalScore_bounds [OF assms] by blast
  have "0 \<le> \<lfloor>t + 1 / 2\<rfloor>" using t by simp
  moreover have "\<lfloor>t + 1 / 2\<rfloor> \<le> 100" using t by (simp add: floor_le_iff)
  ultimately show ?thesis using t by (simp add: calculateRiskScore_def)
qed

text \<open>The example snapshot satisfies the hypotheses of C2.\<close>

theorem C2_score_in_range_witness:
  "(0::real) \<le> negativeCount (news exampleSnapshot)
   \<and> negativeCount (news exampleSnapshot) \<le> totalCount (news exampleSnapshot)
   \<and> 0 \<le> negativeCount (social exampleSnapshot)
   \<and> negativeCount (social exampleSnapshot) \<le> totalCount (social exampleSnapshot)
   \<and> (\<exists>r. calculateRiskScore exampleSnapshot = Some r \<and> 0 \<le> score r \<and> score r \<le> 100)"
  using C2_score_in_range [of exampleSnapshot] by (simp add: exampleSnapshot_def)

lemma newsNegRatio_defined: "\<exists>r. newsNegRatio s = Some r"
  by (simp add: newsNegRatio_def js_div_def)

lemma socialNegRatio_defined: "\<exists>r. socialNegRatio s = Some r"
  by (simp add: socialNegRatio_def js_div_def)

lemma calculateRiskScore_defined: "\<exists>r. calculateRiskScore s = Some r"
proof -
  obtain a where a: "newsNegRatio s = Some a" using newsNegRatio_defined by blast
  obtain b where b: "socialNegRatio s = Some b" using socialNegRatio_defined by blast
  show ?thesis
    by (simp add: calculateRiskScore_def totalScore_def newsScore_def negScore_def
        socialScore_def a b)
qed

text \<open>
  Claim C3. When the news total count is 0 the negative-ratio contribution to the news
  sub-score is 0; when the social total count is 0 the social sub-score is 0; and the
  scoring function returns a finite number for every snapshot: no division by zero occurs.
\<close>

theorem C3_zero_total:
  "(totalCount (news s) = 0 \<longrightarrow> negScore s = Some 0)
   \<and> (totalCount (social s) = 0 \<longrightarrow> socialScore s = Some 0)
   \<and> (\<exists>r. calculateRiskScore s = Some r)"
  using calculateRiskScore_defined [of s]
  by (simp add: negScore_def newsNegRatio_def socialScore_def socialNegRatio_def)

lemma zeroSnapshot_calculateRiskScore: "calculateRiskScore zeroSnapshot = Some \<lparr>score = 13, level = ''LOW''\<rparr>"
  by (simp add: zeroSnapshot_def calculateRiskScore_def totalScore_def newsScore_def
      negScore_def newsNegRatio_def socialScore_def socialNegRatio_def onChainScore_def
      nfScore_def aaScore_def classifyLevel_def)

text \<open>C3 at the snapshot whose counts are all 0: the score is 13, the level LOW.\<close>

theorem C3_zero_total_witness:
  "totalCount (news zeroSnapshot) = 0 \<and> totalCount (social zeroSnapshot) = 0
   \<and> negScore zeroSnapshot = Some 0 \<and> socialScore zeroSnapshot = Some 0
   \<and> calculateRiskScore zeroSnapshot = Some \<lparr>score = 13, level = ''LOW''\<rparr>"
  using C3_zero_total [of zeroSnapshot] zeroSnapshot_calculateRiskScore
  by (simp add: zeroSnapshot_def)

section \<open>Properties of rule matching\<close>

text \<open>
  Claim C5. A rule with an empty condition list matches no coin, whatever the coin's state:
  the result is false, not vacuous truth.
\<close>

theorem C5_empty_conditions:
  "\<not> checkWatchConditions toNumber (rule\<lparr>conditions := []\<rparr>) coin"
  by (simp add: checkWatchConditions_def)

subsection \<open>Rounding to binary64\<close>

text \<open>Rounding to an integer never crosses an integer; the exponent brackets its argument.\<close>

lemma rnd_le: "x \<le> of_int n \<Longrightarrow> rnd x \<le> n"
proof -
  assume a: "x \<le> of_int n"
  then have f: "\<lfloor>x\<rfloor> \<le> n" by (simp add: floor_le_iff)
  show ?thesis
  proof (cases "\<lfloor>x\<rfloor> = n")
    case True
    then have "x = of_int n" using a of_int_floor_le [of x] by simp
    then show ?thesis by (simp add: rnd_def)
  next
    case False
    then have "\<lfloor>x\<rfloor> + 1 \<le> n" using f by simp
    then show ?thesis by (auto simp: rnd_def Let_def)
  qed
qed

lemma rnd_ge: "of_int n \<le> x \<Longrightarrow> n \<le> rnd x"
proof -
  assume "of_int n \<le> x"
  then have "n \<le> \<lfloor>x\<rfloor>" by (simp add: le_floor_iff)
  then show ?thesis by (auto simp: rnd_def Let_def)
qed

lemma expoUp_range: "e \<le> expoUp n e y \<and> expoUp n e y \<le> e + int n"
proof (induction n arbitrary: e)
  case 0
  then show ?case by simp
next
  case (Suc n)
  show ?case using Suc [of "e + 1"] by auto
qed

lemma expoUp_lower: "2 powi e \<le> y \<Longrightarrow> 2 powi (expoUp n e y) \<le> y"
  by (induction n arbitrary: e) auto

lemma expoUp_upper: "expoUp n e y < e + int n \<Longrightarrow> y < 2 powi (expoUp n e y + 1)"
proof (induction n arbitrary: e)
  case 0
  then show ?case by simp
next
  case (Suc n)
  show ?case
  proof (cases "2 powi (e + 1) \<le> y")
    case True
    then show ?thesis using Suc.IH [of "e + 1"] Suc.prems by simp
  next
    case False
    then show ?thesis by simp
  qed
qed

lemma expoDown_range: "e - int n \<le> expoDown n e y \<and> expoDown n e y \<le> e"
proof (induction n arbitrary: e)
  case 0
  then show ?case by simp
next
  case (Suc n)
  show ?case using Suc [of "e - 1"] by auto
qed

lemma expoDown_upper: "y < 2 powi (e + 1) \<Longrightarrow> y < 2 powi (expoDown n e y + 1)"
  by (induction n arbitrary: e) auto

lemma expoDown_lower: "expoDown n e y > e - int n \<Longrightarrow> 2 powi (expoDown n e y) \<le> y"
proof (induction n arbitrary: e)
  case 0
  then show ?case by simp
next
  case (Suc n)
  show ?case
  proof (cases "y < 2 powi e")
    case True
    then show ?thesis using Suc.IH [of "e - 1"] Suc.prems by simp
  next
    case False
    then show ?thesis by simp
  qed
qed

lemma expo_range: "-1022 \<le> expo x \<and> expo x \<le> 1023"
  using expoUp_range [of 0 1023 "\<bar>x\<bar>"] expoDown_range [of "-1" 1021 "\<bar>x\<bar>"]
  by (simp add: expo_def)

lemma expo_lower: "expo x > -1022 \<Longrightarrow> 2 powi (expo x) \<le> \<bar>x\<bar>"
  using expoUp_lower [of 0 "\<bar>x\<bar>" 1023] expoDown_lower [of "-1" 1021 "\<bar>x\<bar>"]
  by (simp add: expo_def split: if_splits)

lemma expo_upper: "expo x < 1023 \<Longrightarrow> \<bar>x\<bar> < 2 powi (expo x + 1)"
  using expoUp_upper [of 1023 0 "\<bar>x\<bar>"] expoDown_upper [of "\<bar>x\<bar>" "-1" 1021]
  by (simp add: expo_def split: if_splits)


lemma expo_eqI:
  assumes "-1022 \<le> e" "e \<le> 1023" "2 powi e \<le> \<bar>x\<bar>" "\<bar>x\<bar> < 2 powi (e + 1)"
  shows "expo x = e"
proof (rule ccontr)
  assume ne: "expo x \<noteq> e"
  show False
  proof (cases "expo x < e")
    case True
    then have "expo x < 1023" using assms(2) by simp
    then have "\<bar>x\<bar> < 2 powi (expo x + 1)" by (rule expo_upper)
    moreover have "(2::real) powi (expo x + 1) \<le> 2 powi e"
      using True by (intro power_int_increasing) simp_all
    ultimately show False using assms(3) by simp
  next
    case False
    then have gt: "e < expo x" using ne by simp
    then have "expo x > -1022" using assms(1) by simp
    then have "2 powi (expo x) \<le> \<bar>x\<bar>" by (rule expo_lower)
    moreover have "(2::real) powi (e + 1) \<le> 2 powi (expo x)"
      using gt by (intro power_int_increasing) simp_all
    ultimately show False using assms(4) by simp
  qed
qed

lemma fl_eq:
  assumes "-1022 \<le> e" "e \<le> 1023" "2 powi e \<le> \<bar>x\<bar>" "\<bar>x\<bar> < 2 powi (e + 1)"
  shows "fl x = of_int (rnd (x / 2 powi (e - 52))) * 2 powi (e - 52)"
  using expo_eqI [OF assms] by (simp add: fl_def)

lemma fl_abs_le:
  assumes "expo x \<le> k" and "\<bar>x\<bar> \<le> of_int M * 2 powi (k - 52)"
  shows "\<bar>fl x\<bar> \<le> of_int M * 2 powi (k - 52)"
proof -
  define q :: real where "q = 2 powi (expo x - 52)"
  define M' :: int where "M' = M * 2 ^ nat (k - expo x)"
  have q: "0 < q" by (simp add: q_def)
  have "(2::real) powi (k - 52) = 2 powi (k - expo x) * 2 powi (expo x - 52)"
    using power_int_add [of "2::real" "k - expo x" "expo x - 52"] by simp
  moreover have "(2::real) powi (k - expo x) = 2 ^ nat (k - expo x)"
    using assms(1) by (simp add: power_int_def)
  ultimately have b: "of_int M * 2 powi (k - 52) = of_int M' * q"
    by (simp add: M'_def q_def)
  have "\<bar>x\<bar> \<le> of_int M' * q" using assms(2) b by simp
  then have "x / q \<le> of_int M'" "of_int (- M') \<le> x / q"
    using q by (simp_all add: pos_divide_le_eq pos_le_divide_eq abs_le_iff)
  then have "rnd (x / q) \<le> M'" "- M' \<le> rnd (x / q)"
    by (auto intro: rnd_le rnd_ge)
  then have "\<bar>real_of_int (rnd (x / q))\<bar> \<le> of_int M'" by linarith
  then have "\<bar>real_of_int (rnd (x / q))\<bar> * q \<le> of_int M' * q"
    using q by (simp add: mult_right_mono)
  then show ?thesis using q b by (simp add: fl_def q_def [symmetric] abs_mult)
qed

lemma fl_abs_ge:
  assumes "expo x = k" and "of_int M * 2 powi (k - 52) \<le> \<bar>x\<bar>" and "0 \<le> M"
  shows "of_int M * 2 powi (k - 52) \<le> \<bar>fl x\<bar>"
proof -
  define q :: real where "q = 2 powi (k - 52)"
  have q: "0 < q" by (simp add: q_def)
  have "of_int M * q \<le> x \<or> x \<le> - (of_int M * q)"
    using assms(2) by (simp add: q_def [symmetric]) linarith
  then have "of_int M \<le> x / q \<or> x / q \<le> of_int (- M)"
    using q by (auto simp: pos_divide_le_eq pos_le_divide_eq)
  then have "M \<le> rnd (x / q) \<or> rnd (x / q) \<le> - M"
    by (auto intro: rnd_le rnd_ge)
  then have "of_int M \<le> \<bar>real_of_int (rnd (x / q))\<bar>" using assms(3) by linarith
  then have "of_int M * q \<le> \<bar>real_of_int (rnd (x / q))\<bar> * q"
    using q by (simp add: mult_right_mono)
  then show ?thesis using q assms(1) by (simp add: fl_def q_def [symmetric] abs_mult)
qed

lemma fl_abs_ge_pow:
  assumes "expo x > -1022"
  shows "2 powi (expo x) \<le> \<bar>fl x\<bar>"
proof -
  have "(2::real) powi (expo x) = 2 powi 52 * 2 powi (expo x - 52)"
    using power_int_add [of "2::real" 52 "expo x - 52"] by simp
  then have e: "(2::real) powi (expo x) = of_int (2 ^ 52) * 2 powi (expo x - 52)"
    by simp
  have "of_int (2 ^ 52) * 2 powi (expo x - 52) \<le> \<bar>x\<bar>"
    using expo_lower [OF assms] e by simp
  then have "of_int (2 ^ 52) * 2 powi (expo x - 52) \<le> \<bar>fl x\<bar>"
    by (intro fl_abs_ge) simp_all
  then show ?thesis using e by simp
qed

text \<open>The binary64 values of the numbers at which the theorems are instantiated.\<close>

lemma fl_val:
  assumes "-1022 \<le> e" "e \<le> 1023" "2 powi e \<le> \<bar>x\<bar>" "\<bar>x\<bar> < 2 powi (e + 1)"
    and "rnd (x / 2 powi (e - 52)) = m"
  shows "fl x = of_int m * 2 powi (e - 52)"
  using fl_eq [OF assms(1-4)] assms(5) by simp

lemma fl_001: "fl (1 / 100) = 5764607523034235 / 576460752303423488"
  using fl_val [of "-7" "1 / 100" 5764607523034235]
  by (simp add: power_int_minus rnd_def Let_def)

lemma fl_001_fix:
  "fl (5764607523034235 / 576460752303423488) = 5764607523034235 / 576460752303423488"
  using fl_val [of "-7" "5764607523034235 / 576460752303423488" 5764607523034235]
  by (simp add: power_int_minus rnd_def Let_def)

lemma fl_below_001:
  "fl (23058430092136939 / 2305843009213693952) = 5764607523034235 / 576460752303423488"
  using fl_val [of "-7" "23058430092136939 / 2305843009213693952" 5764607523034235]
  by (simp add: power_int_minus rnd_def Let_def)

lemma fl_pow_61: "fl (1 / 2305843009213693952) = 1 / 2305843009213693952"
  using fl_val [of "-61" "1 / 2305843009213693952" "2 ^ 52"]
  by (simp add: power_int_minus rnd_def Let_def)

lemma fl_5_01: "fl (501 / 100) = 5640758533281546 / 1125899906842624"
  using fl_val [of 2 "501 / 100" 5640758533281546]
  by (simp add: power_int_minus rnd_def Let_def)

lemma fl_5_01_diff: "fl (5629499534213 / 562949953421312) = 5629499534213 / 562949953421312"
  using fl_val [of "-7" "5629499534213 / 562949953421312" 5764607523034112]
  by (simp add: power_int_minus rnd_def Let_def)

lemma fl_1: "fl 1 = 1"
  using fl_val [of 0 1 "2 ^ 52"] by (simp add: power_int_minus rnd_def Let_def)

lemma fl_2: "fl 2 = 2"
  using fl_val [of 1 2 "2 ^ 52"] by (simp add: power_int_minus rnd_def Let_def)

lemma fl_3: "fl 3 = 3"
  using fl_val [of 1 3 "3 * 2 ^ 51"] by (simp add: power_int_minus rnd_def Let_def)

lemma fl_5: "fl 5 = 5"
  using fl_val [of 2 5 "5 * 2 ^ 50"] by (simp add: power_int_minus rnd_def Let_def)


lemma fl_129_128: "fl (129 / 128) = 129 / 128"
  using fl_val [of 0 "129 / 128" "129 * 2 ^ 45"]
  by (simp add: power_int_minus rnd_def Let_def)

lemma fl_3_2: "fl (3 / 2) = 3 / 2"
  using fl_val [of 0 "3 / 2" "3 * 2 ^ 51"]
  by (simp add: power_int_minus rnd_def Let_def)

subsection \<open>The equality test\<close>

lemma compareValues_eq:
  "compareValues a ''=='' t = (\<bar>fl (fl a - fl t)\<bar> < fl (1 / 100))"
  by (simp add: compareValues_def)

lemma equal_below:
  assumes "\<bar>a - t\<bar> \<le> 5764607523034234 / 2 ^ 59"
  shows "\<bar>fl (a - t)\<bar> < fl (1 / 100)"
proof -
  define d where "d = a - t"
  have c: "(5764607523034234 / 2 ^ 59 :: real) = of_int 5764607523034234 * 2 powi (-7 - 52)"
    by (simp add: power_int_minus)
  have "expo d \<le> -7"
  proof (rule ccontr)
    assume "\<not> expo d \<le> -7"
    then have g: "-6 \<le> expo d" by simp
    then have "2 powi (expo d) \<le> \<bar>d\<bar>" by (intro expo_lower) simp
    moreover have "(2::real) powi (-6) \<le> 2 powi (expo d)"
      using g by (intro power_int_increasing) simp_all
    ultimately have "(2::real) powi (-6) \<le> 5764607523034234 / 2 ^ 59"
      using assms by (simp add: d_def)
    then show False by (simp add: power_int_minus)
  qed
  then have "\<bar>fl d\<bar> \<le> of_int 5764607523034234 * 2 powi (-7 - 52)"
    using assms c by (intro fl_abs_le) (simp_all add: d_def)
  then have "\<bar>fl d\<bar> \<le> 5764607523034234 / 2 ^ 59" using c by simp
  moreover have "(5764607523034234 / 2 ^ 59 :: real) < fl (1 / 100)" by (simp add: fl_001)
  ultimately show ?thesis by (simp add: d_def)
qed

lemma equal_above:
  assumes "5764607523034235 / 2 ^ 59 \<le> \<bar>a - t\<bar>"
  shows "\<not> \<bar>fl (a - t)\<bar> < fl (1 / 100)"
proof -
  define d where "d = a - t"
  have c: "(5764607523034235 / 2 ^ 59 :: real) = of_int 5764607523034235 * 2 powi (-7 - 52)"
    by (simp add: power_int_minus)
  have lo: "-7 \<le> expo d"
  proof (rule ccontr)
    assume "\<not> -7 \<le> expo d"
    then have g: "expo d \<le> -8" by simp
    then have "\<bar>d\<bar> < 2 powi (expo d + 1)" by (intro expo_upper) simp
    moreover have "(2::real) powi (expo d + 1) \<le> 2 powi (-7)"
      using g by (intro power_int_increasing) simp_all
    ultimately have "5764607523034235 / 2 ^ 59 < (2::real) powi (-7)"
      using assms by (simp add: d_def)
    then show False by (simp add: power_int_minus)
  qed
  have "5764607523034235 / 2 ^ 59 \<le> \<bar>fl d\<bar>"
  proof (cases "expo d = -7")
    case True
    have "of_int 5764607523034235 * 2 powi (-7 - 52) \<le> \<bar>fl d\<bar>"
      using True assms c by (intro fl_abs_ge) (simp_all add: d_def)
    then show ?thesis using c by simp
  next
    case False
    then have g: "-6 \<le> expo d" using lo by simp
    then have "2 powi (expo d) \<le> \<bar>fl d\<bar>" by (intro fl_abs_ge_pow) simp
    moreover have "(2::real) powi (-6) \<le> 2 powi (expo d)"
      using g by (intro power_int_increasing) simp_all
    moreover have "(5764607523034235 / 2 ^ 59 :: real) \<le> 2 powi (-6)"
      by (simp add: power_int_minus)
    ultimately show ?thesis by linarith
  qed
  moreover have "fl (1 / 100) = (5764607523034235 / 2 ^ 59 :: real)" by (simp add: fl_001)
  ultimately show ?thesis by (simp add: d_def)
qed

text \<open>
  Against claim C7. The binary64 values of \<^verbatim>\<open>0.01\<close> and of \<open>1 / 2 ^ 61\<close> differ by less
  than 0.01, but the subtraction rounds the difference up to the value of \<^verbatim>\<open>0.01\<close>, which
  is not below itself: the test fails. And the decimals 5.01 and 5 differ by 0.01, not by
  less, but the binary64 value of 5.01 lies below 5.01 and the test holds.
\<close>

theorem C7_counterexample:
  "\<bar>(5764607523034235 / 2 ^ 59 :: real) - 1 / 2 ^ 61\<bar> < 0.01
   \<and> \<not> compareValues (5764607523034235 / 2 ^ 59) ''=='' (1 / 2 ^ 61)
   \<and> \<not> \<bar>(5.01 :: real) - 5\<bar> < 0.01
   \<and> compareValues 5.01 ''=='' 5"
  by (simp add: compareValues_eq fl_below_001 fl_001 fl_001_fix fl_pow_61 fl_5_01 fl_5
      fl_5_01_diff)

text \<open>
  Claim C7, as the code has it. With the operator \<^verbatim>\<open>==\<close> a comparison holds exactly when
  the rounded difference of the binary64 values of the actual value and of the threshold
  is, in absolute value, below the binary64 value of \<^verbatim>\<open>0.01\<close>, which is
  \<open>5764607523034235 / 2 ^ 59\<close>. So it holds whenever the two binary64 values differ by at
  most the binary64 value just below that one (\<open>5764607523034234 / 2 ^ 59\<close>, about
  0.0099999999999999985), and fails whenever they differ by at least
  \<open>5764607523034235 / 2 ^ 59\<close> (about 0.0100000000000000002), in particular when they
  differ by 0.5.
\<close>

theorem C7_equality_double:
  "compareValues actual ''=='' target = (\<bar>fl (fl actual - fl target)\<bar> < fl 0.01)
   \<and> fl 0.01 = 5764607523034235 / 2 ^ 59
   \<and> (\<bar>fl actual - fl target\<bar> \<le> 5764607523034234 / 2 ^ 59
        \<longrightarrow> compareValues actual ''=='' target)
   \<and> (5764607523034235 / 2 ^ 59 \<le> \<bar>fl actual - fl target\<bar>
        \<longrightarrow> \<not> compareValues actual ''=='' target)
   \<and> (\<bar>fl actual - fl target\<bar> = 0.5 \<longrightarrow> \<not> compareValues actual ''=='' target)"
proof -
  have e: "compareValues actual ''=='' target = (\<bar>fl (fl actual - fl target)\<bar> < fl 0.01)"
    by (simp add: compareValues_def)
  have v: "fl 0.01 = (5764607523034235 / 2 ^ 59 :: real)" by (simp add: fl_001)
  have b: "compareValues actual ''=='' target"
    if "\<bar>fl actual - fl target\<bar> \<le> 5764607523034234 / 2 ^ 59"
    using equal_below [OF that] by (simp add: compareValues_eq)
  have a: "\<not> compareValues actual ''=='' target"
    if "5764607523034235 / 2 ^ 59 \<le> \<bar>fl actual - fl target\<bar>"
    using equal_above [OF that] by (simp add: compareValues_eq)
  have h: "\<not> compareValues actual ''=='' target" if "\<bar>fl actual - fl target\<bar> = 0.5"
    using that by (intro a) simp
  show ?thesis using e v a b h by blast
qed

text \<open>C7 at the binary64 values 129/128 and 3/2 against the threshold 1.\<close>

theorem C7_equality_double_witness:
  "\<bar>fl (129 / 128) - fl 1\<bar> \<le> 5764607523034234 / 2 ^ 59
   \<and> compareValues (129 / 128) ''=='' 1
   \<and> \<bar>fl (3 / 2) - fl 1\<bar> = 0.5
   \<and> \<not> compareValues (3 / 2) ''=='' 1"
  using C7_equality_double [of "129 / 128" 1, THEN conjunct2, THEN conjunct2]
    C7_equality_double [of "3 / 2" 1, THEN conjunct2, THEN conjunct2]
  by (simp add: fl_129_128 fl_1 fl_3_2)

text \<open>
  Claim C9. A rule whose \<^verbatim>\<open>coinSymbols\<close> is the empty array is evaluated against every coin
  exactly as the same rule with \<^verbatim>\<open>coinSymbols = null\<close>: the symbol filter is skipped.
\<close>

theorem C9_empty_scope:
  "checkWatchConditions toNumber (rule\<lparr>coinSymbols := Some []\<rparr>) coin
   = checkWatchConditions toNumber (rule\<lparr>coinSymbols := None\<rparr>) coin"
  by (simp add: checkWatchConditions_def)

text \<open>
  Claim C10. For a coin whose analysis, or whose analysis' stats, is absent, every condition
  evaluates to false; hence no rule with at least one condition matches such a coin.
\<close>

theorem C10_no_assessment:
  assumes "analysis coin = None \<or> (\<exists>a. analysis coin = Some a \<and> stats a = None)"
  shows "\<not> checkCondition toNumber condition coin
         \<and> (conditions rule \<noteq> [] \<longrightarrow> \<not> checkWatchConditions toNumber rule coin)"
proof -
  have c: "\<not> checkCondition toNumber c coin" for c
    using assms by (auto simp: checkCondition_def)
  have "\<not> checkWatchConditions toNumber rule coin" if ne: "conditions rule \<noteq> []"
  proof -
    obtain c cs where "conditions rule = c # cs" using ne by (cases "conditions rule") auto
    then show ?thesis using c [of c] by (simp add: checkWatchConditions_def)
  qed
  then show ?thesis using c by blast
qed

text \<open>C10 at a coin without analysis and a rule with one price condition.\<close>

theorem C10_no_assessment_witness:
  "analysis (sampleCoin ''BTC'' 7.2 None) = None
   \<and> conditions (sampleRule ''r1'' [sampleCondition ''price_change'' ''>'' (NumV 5)] None) \<noteq> []
   \<and> \<not> checkCondition toNumberNaN (sampleCondition ''price_change'' ''>'' (NumV 5)) (sampleCoin ''BTC'' 7.2 None)
   \<and> \<not> checkWatchConditions toNumberNaN
         (sampleRule ''r1'' [sampleCondition ''price_change'' ''>'' (NumV 5)] None) (sampleCoin ''BTC'' 7.2 None)"
  using C10_no_assessment [of "sampleCoin ''BTC'' 7.2 None" toNumberNaN
      "sampleCondition ''price_change'' ''>'' (NumV 5)"
      "sampleRule ''r1'' [sampleCondition ''price_change'' ''>'' (NumV 5)] None"]
  by (simp add: sampleCoin_def sampleRule_def)

section \<open>Properties of the analysis\<close>

text \<open>
  Claim C6. When both the news and the social statistics are missing, the analysis returns
  no result at all (\<^verbatim>\<open>null\<close>), whatever the other inputs: no record with a score, hence no
  score 0, is made up. With only one of the two present there are inputs for which the
  analysis returns a record with a numeric score between 0 and 100.
\<close>

theorem C6_unavailable:
  "analyzeCoinSignal coin None None riskData coinMarketData = None
   \<and> (\<exists>newsStats riskData' r x.
         analyzeCoinSignal coin (Some newsStats) None riskData' coinMarketData = Some r
         \<and> riskScore r = Some x \<and> 0 \<le> x \<and> x \<le> 100)"
proof -
  have none: "analyzeCoinSignal coin None None riskData coinMarketData = None"
    by (simp add: analyzeCoinSignal_def)
  have "analyzeCoinSignal coin (Some \<lparr>total = 0, resp_stats = []\<rparr>) None
          (Some \<lparr>overall_risk_score = Some 55, risk_level = None\<rparr>) coinMarketData
        = Some \<lparr>marketPhase = marketPhaseOf (change24h coin), riskLevel = Some ''MEDIUM'',
             riskScore = Some 55,
             stats = Some (buildStats (Some \<lparr>total = 0, resp_stats = []\<rparr>) None coinMarketData)\<rparr>"
    by (simp add: analyzeCoinSignal_def backendLevel_def backendScore_def)
  then have "\<exists>newsStats riskData' r x.
         analyzeCoinSignal coin (Some newsStats) None riskData' coinMarketData = Some r
         \<and> riskScore r = Some x \<and> 0 \<le> x \<and> x \<le> 100"
    by (intro exI [of _ "\<lparr>total = 0, resp_stats = []\<rparr>"]
        exI [of _ "Some \<lparr>overall_risk_score = Some 55, risk_level = None\<rparr>"]
        exI [of _ "\<lparr>marketPhase = marketPhaseOf (change24h coin), riskLevel = Some ''MEDIUM'',
             riskScore = Some 55,
             stats = Some (buildStats (Some \<lparr>total = 0, resp_stats = []\<rparr>) None coinMarketData)\<rparr>"]
        exI [of _ 55]) simp
  then show ?thesis using none by blast
qed

section \<open>Risk-score and risk-level conditions\<close>

text \<open>
  Claim C8 says that a risk-score condition and a risk-level condition are both false when
  the assessment is unavailable, that is when its score is the sentinel -1. The code at an
  assessment with score -1 and level HIGH: the risk-score condition "at least 0" is false,
  but the risk-level condition "at least MEDIUM" holds, because the guard of that branch
  looks for -1 only together with the level LOW.
\<close>

theorem C8_unavailable_level_matches:
  "riskScore (sampleAssessment ''HIGH'' (-1)) = Some (-1)
   \<and> \<not> checkCondition toNumberNaN (sampleCondition ''risk_score'' ''>='' (NumV 0))
         (sampleCoin ''BTC'' 0 (Some (sampleAssessment ''HIGH'' (-1))))
   \<and> checkCondition toNumberNaN (sampleCondition ''risk_level'' ''>='' (StrV ''MEDIUM''))
       (sampleCoin ''BTC'' 0 (Some (sampleAssessment ''HIGH'' (-1))))"
  by (simp add: checkCondition_def sampleCoin_def sampleAssessment_def sampleCondition_def
      compareValues_def getRiskLevelValue_def targetLevelValue_def fl_2 fl_3)

section \<open>The cooldown between passes\<close>





























end
